theory Spec2Isabelle
  imports Main "HOL-Library.Sublist" "HOL-Library.Multiset"
begin

section \<open>JavaScript values\<close>

text \<open>
  A JSON-serialisable value (the \<^verbatim>\<open>any\<close> of a request or response body). Numbers are
  the integers; an absent (\<^verbatim>\<open>undefined\<close>) optional field is \<open>None\<close> of an option type.
\<close>

datatype json =
    JNull
  | JBool bool
  | JNum int
  | JStr string
  | JArr "json list"
  | JObj "(string \<times> json) list"

text \<open>\<^verbatim>\<open>Record<string, string>\<close>: the own properties in enumeration order.\<close>

type_synonym headers = "(string \<times> string) list"

text \<open>The truthiness test of \<^verbatim>\<open>x ? a : b\<close> and \<^verbatim>\<open>x || y\<close> on a defined value.\<close>

fun truthy :: "json \<Rightarrow> bool" where
  "truthy JNull = False"
| "truthy (JBool b) = b"
| "truthy (JNum n) = (n \<noteq> 0)"
| "truthy (JStr s) = (s \<noteq> [])"
| "truthy (JArr xs) = True"
| "truthy (JObj kvs) = True"

text \<open>
  The text that \<^verbatim>\<open>JSON.stringify\<close> produces, represented by the value it denotes: the
  store parses the text back into that value when it fills a JSONB column.
\<close>

datatype json_text = JSON_stringify json

definition headers_json :: "headers \<Rightarrow> json" where
  "headers_json h = JObj (map (\<lambda>(k, v). (k, JStr v)) h)"

text \<open>
  A thrown value: the two properties the client reads from it (\<^verbatim>\<open>error.status\<close>,
  \<^verbatim>\<open>error.message\<close>), each possibly undefined.
\<close>

record js_error =
  err_status :: "int option"
  err_message :: "string option"

definition Error :: "string \<Rightarrow> js_error" where
  "Error msg = \<lparr>err_status = None, err_message = Some msg\<rparr>"

section \<open>The relational store\<close>

text \<open>
  The statements the repository sends, one constructor per statement text of the source,
  with the statement's parameters. The existence checks pass their names as parameters
  (\<^verbatim>\<open>$1\<close>, \<^verbatim>\<open>$2\<close>), which the store compares as they are. \<open>CreateSchemaIfNotExists\<close>
  carries the name as it is spliced, unquoted, into the statement text. \<open>CreateTable\<close>
  stands for a caller-supplied \<^verbatim>\<open>CREATE TABLE\<close>: whether it carries
  \<^verbatim>\<open>IF NOT EXISTS\<close>, the schema and table names written in it, and the tables its foreign
  keys reference, as written.
\<close>

datatype sql =
    SchemaExists string
  | TableExists string string
  | CreateSchemaIfNotExists string
  | CreateTable bool string string "(string \<times> string) list"
  | InsertRequest string string "json_text option" "json_text option"
  | InsertResponse int int "json_text option" "json_text option" int
  | SelectAllRequests
  | SelectRequestsByEndpoint string
  | SelectFailedResponses
  | SelectNow

record request_row =
  rq_id :: int
  rq_endpoint :: string
  rq_method :: string
  rq_headers :: "json option"
  rq_body :: "json option"
  rq_timestamp :: nat

record response_row =
  rs_id :: int
  rs_request_id :: "int option"
  rs_status_code :: int
  rs_headers :: "json option"
  rs_body :: "json option"
  rs_response_time_ms :: int
  rs_timestamp :: nat

text \<open>
  The database: the metadata catalog (schemata, tables), the rows of the two audit tables
  in insertion order, their two serial sequences and the server clock that stamps rows.
\<close>

record store =
  schemata :: "string list"
  tables :: "(string \<times> string) list"
  api_requests :: "request_row list"
  api_responses :: "response_row list"
  requests_id_seq :: int
  responses_id_seq :: int
  db_now :: nat

definition empty_store :: store where
  "empty_store = \<lparr>schemata = [], tables = [], api_requests = [], api_responses = [],
     requests_id_seq = 0, responses_id_seq = 0, db_now = 0\<rparr>"

text \<open>What a statement returns: the \<^verbatim>\<open>rows\<close> of the driver's result.\<close>

datatype rows =
    ExistsRow bool
  | IdRow int
  | RequestRows "request_row list"
  | FailedRows "(string \<times> string \<times> response_row) list"
  | NoRows

definition jsonb :: "json_text option \<Rightarrow> json option" where
  "jsonb p = (case p of None \<Rightarrow> None | Some (JSON_stringify v) \<Rightarrow> Some v)"

text \<open>\<^verbatim>\<open>ORDER BY timestamp DESC\<close>: sorted by the key, largest first.\<close>

definition order_by_desc :: "('a \<Rightarrow> nat) \<Rightarrow> 'a list \<Rightarrow> 'a list" where
  "order_by_desc key xs = rev (sort_key key xs)"

text \<open>
  The \<^verbatim>\<open>LIKE\<close> operator of the store: \<^verbatim>\<open>%\<close> matches any run of characters, \<^verbatim>\<open>_\<close>
  any one character, a backslash makes the next pattern character literal.
\<close>

fun like :: "string \<Rightarrow> string \<Rightarrow> bool" where
  "like [] s = (s = [])"
| "like (p # ps) s =
     (if p = CHR ''%'' then like ps s \<or> (case s of [] \<Rightarrow> False | c # cs \<Rightarrow> like (p # ps) cs)
      else if p = CHR ''_'' then (case s of [] \<Rightarrow> False | c # cs \<Rightarrow> like ps cs)
      else if p = CHR 0x5C then
        (case ps of
           [] \<Rightarrow> False
         | q # qs \<Rightarrow> (case s of [] \<Rightarrow> False | c # cs \<Rightarrow> c = q \<and> like qs cs))
      else (case s of [] \<Rightarrow> False | c # cs \<Rightarrow> c = p \<and> like ps cs))"

definition requests_table :: "string \<times> string" where
  "requests_table = (''api_test'', ''api_requests'')"

definition responses_table :: "string \<times> string" where
  "responses_table = (''api_test'', ''api_responses'')"

text \<open>The inner join of a response to the requests whose id is its \<^verbatim>\<open>request_id\<close>.\<close>

definition join_request :: "request_row list \<Rightarrow> response_row \<Rightarrow> (string \<times> string \<times> response_row) list" where
  "join_request rqs res =
     map (\<lambda>r. (rq_endpoint r, rq_method r, res))
       (filter (\<lambda>r. rs_request_id res = Some (rq_id r)) rqs)"

text \<open>
  How the store reads a name that is written, unquoted, in the text of a statement: the
  name it denotes, or \<open>None\<close> when the store refuses the text. PostgreSQL folds an
  unquoted identifier to lower case, refuses key words and other text, and cuts long
  names. The three names that the source writes in its statements are lower-case
  identifiers and are read as written; how any other text is read is \<open>rd\<close>, a parameter
  of the environment.
\<close>

definition reading :: "(string \<Rightarrow> string option) \<Rightarrow> string \<Rightarrow> string option" where
  "reading rd name =
     (if name \<in> set [''api_test'', ''api_requests'', ''api_responses''] then Some name
      else rd name)"

definition read_table :: "(string \<Rightarrow> string option) \<Rightarrow> string \<times> string \<Rightarrow> (string \<times> string) option" where
  "read_table rd st =
     (case reading rd (fst st) of
        None \<Rightarrow> None
      | Some n \<Rightarrow> (case reading rd (snd st) of None \<Rightarrow> None | Some t \<Rightarrow> Some (n, t)))"

text \<open>
  What the store, a PostgreSQL database, does with a statement: the new state and the
  rows, or the error the driver raises. Creating a table needs its schema and the tables
  it references; an insert or a select needs its table; a response row needs the request
  it references (the foreign key of the table definition in \<^verbatim>\<open>initializeDatabase\<close>). An
  inserted row gets the next value of its serial sequence and the time of the server
  clock, which moves on with every insert. The inserts and selects of the repository
  name the two tables by the names that are read as written.
\<close>

fun exec :: "(string \<Rightarrow> string option) \<Rightarrow> sql \<Rightarrow> store \<Rightarrow> js_error + (rows \<times> store)" where
  "exec rd (SchemaExists n) s = Inr (ExistsRow (n \<in> set (schemata s)), s)"
| "exec rd (TableExists n t) s = Inr (ExistsRow ((n, t) \<in> set (tables s)), s)"
| "exec rd (CreateSchemaIfNotExists name) s =
     (case reading rd name of
        None \<Rightarrow> Inl (Error ''syntax error'')
      | Some n \<Rightarrow>
          if n \<in> set (schemata s) then Inr (NoRows, s)
          else Inr (NoRows, s\<lparr>schemata := schemata s @ [n]\<rparr>))"
| "exec rd (CreateTable if_not_exists schema_name table_name references) s =
     (case read_table rd (schema_name, table_name) of
        None \<Rightarrow> Inl (Error ''syntax error'')
      | Some (n, t) \<Rightarrow>
          (case those (map (read_table rd) references) of
             None \<Rightarrow> Inl (Error ''syntax error'')
           | Some refs \<Rightarrow>
               if n \<notin> set (schemata s) then Inl (Error ''schema does not exist'')
               else if (n, t) \<in> set (tables s) then
                 (if if_not_exists then Inr (NoRows, s)
                  else Inl (Error ''relation already exists''))
               else if \<not> list_all (\<lambda>r. r \<in> set (tables s)) refs then
                 Inl (Error ''relation does not exist'')
               else Inr (NoRows, s\<lparr>tables := tables s @ [(n, t)]\<rparr>)))"
| "exec rd (InsertRequest e m h b) s =
     (if requests_table \<notin> set (tables s) then Inl (Error ''relation does not exist'')
      else
        let i = requests_id_seq s + 1;
            row = \<lparr>rq_id = i, rq_endpoint = e, rq_method = m, rq_headers = jsonb h,
                   rq_body = jsonb b, rq_timestamp = db_now s\<rparr>
        in Inr (IdRow i, s\<lparr>api_requests := api_requests s @ [row], requests_id_seq := i,
                         db_now := Suc (db_now s)\<rparr>))"
| "exec rd (InsertResponse rid sc h b ms) s =
     (if responses_table \<notin> set (tables s) then Inl (Error ''relation does not exist'')
      else if rid \<notin> rq_id ` set (api_requests s) then
        Inl (Error ''violates foreign key constraint'')
      else
        let i = responses_id_seq s + 1;
            row = \<lparr>rs_id = i, rs_request_id = Some rid, rs_status_code = sc,
                   rs_headers = jsonb h, rs_body = jsonb b, rs_response_time_ms = ms,
                   rs_timestamp = db_now s\<rparr>
        in Inr (IdRow i, s\<lparr>api_responses := api_responses s @ [row], responses_id_seq := i,
                         db_now := Suc (db_now s)\<rparr>))"
| "exec rd SelectAllRequests s =
     (if requests_table \<notin> set (tables s) then Inl (Error ''relation does not exist'')
      else Inr (RequestRows (order_by_desc rq_timestamp (api_requests s)), s))"
| "exec rd (SelectRequestsByEndpoint pat) s =
     (if requests_table \<notin> set (tables s) then Inl (Error ''relation does not exist'')
      else Inr (RequestRows (order_by_desc rq_timestamp
                  (filter (\<lambda>r. like pat (rq_endpoint r)) (api_requests s))), s))"
| "exec rd SelectFailedResponses s =
     (if requests_table \<notin> set (tables s) \<or> responses_table \<notin> set (tables s) then
        Inl (Error ''relation does not exist'')
      else Inr (FailedRows (concat (map (join_request (api_requests s))
                  (order_by_desc rs_timestamp
                     (filter (\<lambda>r. 400 \<le> rs_status_code r) (api_responses s))))), s))"
| "exec rd SelectNow s = Inr (NoRows, s)"

section \<open>The process: singleton, pools, faults and trace\<close>

record http_request =
  http_method :: string
  http_url :: string
  http_data :: "json option"
  http_headers :: "headers option"

text \<open>
  The response object of the HTTP library: its status, and what its accessors
  \<^verbatim>\<open>json()\<close>, \<^verbatim>\<open>text()\<close> and \<^verbatim>\<open>headers()\<close> return (\<open>None\<close> when the accessor throws).
\<close>

record APIResponse =
  resp_status :: int
  resp_json :: "json option"
  resp_text :: "string option"
  resp_headers :: "headers option"

text \<open>The fields of a \<^verbatim>\<open>DatabaseService\<close> object; a pool and a container are handles.\<close>

record DatabaseService =
  pool :: "nat option"
  container :: "nat option"
  isTestContainerMode :: bool

definition new_DatabaseService :: DatabaseService where
  "new_DatabaseService = \<lparr>pool = None, container = None, isTestContainerMode = False\<rparr>"

datatype event =
    Sent sql
  | Http http_request
  | Console string
  | ConsoleError string

text \<open>
  The state of one worker process and of what it talks to.
  \<^item> \<open>instance_ref\<close> is the static field \<^verbatim>\<open>DatabaseService.instance\<close>: a reference into
    \<open>services\<close>, the \<^verbatim>\<open>DatabaseService\<close> objects by reference; \<open>constructed\<close> counts the
    runs of the private constructor.
  \<^item> \<open>live_pools\<close> and \<open>running_containers\<close> are the pools created and not ended, and the
    containers started and not stopped.
  \<^item> \<open>db\<close> is the database behind the pool; \<open>production\<close> is
    \<^verbatim>\<open>process.env.NODE_ENV === 'production'\<close>; \<open>clock\<close> is what \<^verbatim>\<open>Date.now()\<close> reads,
    in milliseconds: an HTTP call advances it by the time the call takes.
  \<^item> \<open>faults\<close> is what the environment will do to the next fallible external actions
    (a statement sent to the store, a container start or stop, a connection checkout,
    a pool shutdown), one flag each in order: \<open>True\<close> makes the action fail. It stands
    for every failure the store or driver reports that \<open>exec\<close> does not compute
    (connectivity loss, a value the column type rejects). An empty list means no
    failure.
  \<^item> \<open>trace\<close> records, in order, the statements sent, the HTTP calls made and the
    console lines written.
  \<^item> \<open>reads\<close> is how the store reads a name written unquoted in a statement.
\<close>

record world =
  instance_ref :: "nat option"
  services :: "nat \<Rightarrow> DatabaseService"
  constructed :: nat
  live_pools :: "nat list"
  running_containers :: "nat list"
  next_handle :: nat
  production :: bool
  db :: store
  faults :: "bool list"
  trace :: "event list"
  clock :: int
  reads :: "string \<Rightarrow> string option"

definition console_log :: "string \<Rightarrow> world \<Rightarrow> world" where
  "console_log m w = w\<lparr>trace := trace w @ [Console m]\<rparr>"

definition console_error :: "string \<Rightarrow> world \<Rightarrow> world" where
  "console_error m w = w\<lparr>trace := trace w @ [ConsoleError m]\<rparr>"

definition take_fault :: "world \<Rightarrow> bool \<times> world" where
  "take_fault w = (case faults w of [] \<Rightarrow> (False, w) | f # fs \<Rightarrow> (f, w\<lparr>faults := fs\<rparr>))"

definition connection_error :: js_error where
  "connection_error = Error ''Connection terminated unexpectedly''"

definition type_error :: js_error where
  "type_error = Error ''Cannot read properties of undefined''"

text \<open>
  \<^verbatim>\<open>client.query\<close> and \<^verbatim>\<open>pool.query\<close>: the statement goes to the store, which fails it
  or executes it.
\<close>

definition send :: "sql \<Rightarrow> world \<Rightarrow> (js_error + rows) \<times> world" where
  "send q w =
     (let (f, w1) = take_fault (w\<lparr>trace := trace w @ [Sent q]\<rparr>) in
      if f then (Inl connection_error, w1)
      else (case exec (reads w1) q (db w1) of
              Inl e \<Rightarrow> (Inl e, w1)
            | Inr (r, s) \<Rightarrow> (Inr r, w1\<lparr>db := s\<rparr>)))"

definition set_service :: "nat \<Rightarrow> (DatabaseService \<Rightarrow> DatabaseService) \<Rightarrow> world \<Rightarrow> world" where
  "set_service this f w = w\<lparr>services := (services w)(this := f (services w this))\<rparr>"

section \<open>DatabaseUtil: the schema provisioner\<close>

definition quoted :: "string \<Rightarrow> string" where
  "quoted s = [CHR 0x27] @ s @ [CHR 0x27]"

definition ensureSchema :: "string \<Rightarrow> world \<Rightarrow> (js_error + unit) \<times> world" where
  "ensureSchema schemaName w =
     (case send (SchemaExists schemaName) w of
        (Inl e, w1) \<Rightarrow> (Inl e, w1)
      | (Inr (ExistsRow ex), w1) \<Rightarrow>
          if \<not> ex then
            (case send (CreateSchemaIfNotExists schemaName) w1 of
               (Inl e, w2) \<Rightarrow> (Inl e, w2)
             | (Inr r, w2) \<Rightarrow>
                 (Inr (), console_log (''Schema '' @ quoted schemaName @ '' created successfully'') w2))
          else (Inr (), console_log (''Schema '' @ quoted schemaName @ '' already exists'') w1)
      | (Inr r, w1) \<Rightarrow> (Inl type_error, w1))"

definition ensureTable :: "string \<Rightarrow> string \<Rightarrow> sql \<Rightarrow> world \<Rightarrow> (js_error + unit) \<times> world" where
  "ensureTable schemaName tableName createTableQuery w =
     (case send (TableExists schemaName tableName) w of
        (Inl e, w1) \<Rightarrow> (Inl e, w1)
      | (Inr (ExistsRow ex), w1) \<Rightarrow>
          if \<not> ex then
            (case send createTableQuery w1 of
               (Inl e, w2) \<Rightarrow> (Inl e, w2)
             | (Inr r, w2) \<Rightarrow>
                 (Inr (), console_log (''Table '' @ quoted (schemaName @ ''.'' @ tableName)
                            @ '' created successfully'') w2))
          else (Inr (), console_log (''Table '' @ quoted (schemaName @ ''.'' @ tableName)
                          @ '' already exists'') w1)
      | (Inr r, w1) \<Rightarrow> (Inl type_error, w1))"

definition createRequestsTableQuery :: "string \<Rightarrow> sql" where
  "createRequestsTableQuery schemaName = CreateTable True schemaName ''api_requests'' []"

definition createResponsesTableQuery :: "string \<Rightarrow> sql" where
  "createResponsesTableQuery schemaName =
     CreateTable True schemaName ''api_responses'' [(schemaName, ''api_requests'')]"

definition initializeDatabase :: "world \<Rightarrow> (js_error + unit) \<times> world" where
  "initializeDatabase w =
     (let schemaName = ''api_test'' in
      case ensureSchema schemaName w of
        (Inl e, w1) \<Rightarrow> (Inl e, w1)
      | (Inr u, w1) \<Rightarrow>
          (case ensureTable schemaName ''api_requests'' (createRequestsTableQuery schemaName) w1 of
             (Inl e, w2) \<Rightarrow> (Inl e, w2)
           | (Inr u, w2) \<Rightarrow>
               (case ensureTable schemaName ''api_responses''
                       (createResponsesTableQuery schemaName) w2 of
                  (Inl e, w3) \<Rightarrow> (Inl e, w3)
                | (Inr u, w3) \<Rightarrow> (Inr (), console_log ''Database initialization completed'' w3))))"

section \<open>DatabaseService: the connection manager\<close>

text \<open>
  \<^verbatim>\<open>getInstance\<close> returns the reference in the static field, constructing the object
  first when the field is empty.
\<close>

definition getInstance :: "world \<Rightarrow> nat \<times> world" where
  "getInstance w =
     (case instance_ref w of
        Some r \<Rightarrow> (r, w)
      | None \<Rightarrow>
          (let r = constructed w in
           (r, w\<lparr>instance_ref := Some r,
                  services := (services w)(r := new_DatabaseService),
                  constructed := Suc r\<rparr>)))"

definition new_Pool :: "nat \<Rightarrow> world \<Rightarrow> world" where
  "new_Pool this w =
     (let p = next_handle w in
      set_service this (\<lambda>d. d\<lparr>pool := Some p\<rparr>)
        (w\<lparr>live_pools := p # live_pools w, next_handle := Suc p\<rparr>))"

text \<open>A started container holds a fresh database.\<close>

definition initializeTestContainer :: "nat \<Rightarrow> world \<Rightarrow> (js_error + unit) \<times> world" where
  "initializeTestContainer this w =
     (let (f, w1) = take_fault (console_log ''Starting PostgreSQL container with TestContainers...'' w) in
      if f then (Inl (Error ''Could not start container''), w1)
      else
        let c = next_handle w1;
            w2 = set_service this (\<lambda>d. d\<lparr>container := Some c\<rparr>)
                   (w1\<lparr>running_containers := c # running_containers w1,
                       next_handle := Suc c, db := empty_store\<rparr>);
            w3 = set_service this (\<lambda>d. d\<lparr>isTestContainerMode := True\<rparr>) (new_Pool this w2)
        in (Inr (), console_log ''PostgreSQL container started successfully'' w3))"

definition initializeFromConfig :: "nat \<Rightarrow> world \<Rightarrow> (js_error + unit) \<times> world" where
  "initializeFromConfig this w =
     (case send SelectNow (new_Pool this (console_log ''Connecting to PostgreSQL from configuration...'' w)) of
        (Inr r, w1) \<Rightarrow> (Inr (), console_log ''PostgreSQL connection established successfully'' w1)
      | (Inl e, w1) \<Rightarrow> (Inl e, console_error ''Failed to connect to PostgreSQL:'' w1))"

text \<open>
  \<^verbatim>\<open>initialize\<close>: after the pool is built, one connection is checked out
  (\<^verbatim>\<open>pool.connect()\<close>, which can fail), the provisioner runs on it, and it is released.
\<close>

definition initialize :: "nat \<Rightarrow> bool \<Rightarrow> world \<Rightarrow> (js_error + unit) \<times> world" where
  "initialize this useTestContainer w =
     (if pool (services w this) \<noteq> None then
        (Inr (), console_log ''Database connection already initialized'' w)
      else
        (case (if useTestContainer \<and> \<not> production w then initializeTestContainer this w
               else initializeFromConfig this w) of
           (Inl e, w1) \<Rightarrow> (Inl e, w1)
         | (Inr u, w1) \<Rightarrow>
             (let (f, w2) = take_fault w1 in
              if f then (Inl connection_error, w2) else initializeDatabase w2)))"

definition query :: "nat \<Rightarrow> sql \<Rightarrow> world \<Rightarrow> (js_error + rows) \<times> world" where
  "query this q w =
     (case pool (services w this) of
        None \<Rightarrow> (Inl (Error ''Database not initialized. Call initialize() first.''), w)
      | Some p \<Rightarrow> send q w)"

definition close :: "nat \<Rightarrow> world \<Rightarrow> (js_error + unit) \<times> world" where
  "close this w =
     (case (case pool (services w this) of
              None \<Rightarrow> (Inr (), w)
            | Some p \<Rightarrow>
                (let (f, w1) = take_fault w in
                 if f then (Inl connection_error, w1)
                 else (Inr (), console_log ''Database connection pool closed''
                         (set_service this (\<lambda>d. d\<lparr>pool := None\<rparr>)
                            (w1\<lparr>live_pools := removeAll p (live_pools w1)\<rparr>))))) of
        (Inl e, w1) \<Rightarrow> (Inl e, w1)
      | (Inr u, w1) \<Rightarrow>
          (case container (services w1 this) of
             None \<Rightarrow> (Inr (), w1)
           | Some c \<Rightarrow>
               (let (f, w2) = take_fault w1 in
                if f then (Inl (Error ''Could not stop container''), w2)
                else (Inr (), console_log ''PostgreSQL container stopped''
                        (set_service this (\<lambda>d. d\<lparr>container := None\<rparr>)
                           (w2\<lparr>running_containers := removeAll c (running_containers w2)\<rparr>))))))"

definition isInitialized :: "nat \<Rightarrow> world \<Rightarrow> bool" where
  "isInitialized this w = (pool (services w this) \<noteq> None)"

text \<open>
  \<^verbatim>\<open>initialize\<close> as the scheduler runs it. The call runs without interruption up to its
  first \<^verbatim>\<open>await\<close> that suspends it, and other calls can run before it goes on. With a
  container, that is the \<^verbatim>\<open>await\<close> of the container start, which stands between the
  test of \<^verbatim>\<open>this.pool\<close> and the assignment to it: \<open>initialize_begin\<close> returns \<open>None\<close>
  there, and \<open>initialize_resume\<close> is the rest of the call. From the configuration the
  pool is assigned before the first suspension, and the call is not split here. Lemma
  \<open>initialize_split\<close> below shows that the two parts, run one after the other, are
  \<open>initialize\<close>.
\<close>

definition initialize_begin :: "nat \<Rightarrow> bool \<Rightarrow> world \<Rightarrow> (js_error + unit) option \<times> world" where
  "initialize_begin this useTestContainer w =
     (if pool (services w this) \<noteq> None then
        (Some (Inr ()), console_log ''Database connection already initialized'' w)
      else if useTestContainer \<and> \<not> production w then
        (None, console_log ''Starting PostgreSQL container with TestContainers...'' w)
      else (case initialize this useTestContainer w of (r, w1) \<Rightarrow> (Some r, w1)))"

definition initialize_resume :: "nat \<Rightarrow> world \<Rightarrow> (js_error + unit) \<times> world" where
  "initialize_resume this w =
     (let (f, w1) = take_fault w in
      if f then (Inl (Error ''Could not start container''), w1)
      else
        let c = next_handle w1;
            w2 = set_service this (\<lambda>d. d\<lparr>container := Some c\<rparr>)
                   (w1\<lparr>running_containers := c # running_containers w1,
                       next_handle := Suc c, db := empty_store\<rparr>);
            w3 = set_service this (\<lambda>d. d\<lparr>isTestContainerMode := True\<rparr>) (new_Pool this w2);
            (f', w4) = take_fault (console_log ''PostgreSQL container started successfully'' w3)
        in if f' then (Inl connection_error, w4) else initializeDatabase w4)"

section \<open>ApiLogRepository: the log store\<close>

record ApiRequest =
  req_endpoint :: string
  req_method :: string
  req_headers :: "headers option"
  req_body :: "json option"

record ApiResponseLog =
  res_requestId :: int
  res_statusCode :: int
  res_headers :: "headers option"
  res_body :: "json option"
  res_responseTimeMs :: int

record ApiLogRepository =
  dbService :: nat

definition new_ApiLogRepository :: "world \<Rightarrow> ApiLogRepository \<times> world" where
  "new_ApiLogRepository w = (let (r, w1) = getInstance w in (\<lparr>dbService = r\<rparr>, w1))"

text \<open>
  \<^verbatim>\<open>x ? JSON.stringify(x) : null\<close>, for a headers object (truthy whenever it is defined)
  and for a body of any type.
\<close>

definition headersJson :: "headers option \<Rightarrow> json_text option" where
  "headersJson h = (case h of None \<Rightarrow> None | Some x \<Rightarrow> Some (JSON_stringify (headers_json x)))"

definition bodyJson :: "json option \<Rightarrow> json_text option" where
  "bodyJson b =
     (case b of None \<Rightarrow> None | Some x \<Rightarrow> if truthy x then Some (JSON_stringify x) else None)"

text \<open>\<^verbatim>\<open>result.rows[0].id\<close>: a result without such a row makes the read throw.\<close>

definition returned_id :: "(js_error + rows) \<times> world \<Rightarrow> (js_error + int) \<times> world" where
  "returned_id r =
     (case r of
        (Inl e, w1) \<Rightarrow> (Inl e, w1)
      | (Inr (IdRow i), w1) \<Rightarrow> (Inr i, w1)
      | (Inr other, w1) \<Rightarrow> (Inl type_error, w1))"

definition repo_logRequest :: "ApiLogRepository \<Rightarrow> ApiRequest \<Rightarrow> world \<Rightarrow> (js_error + int) \<times> world" where
  "repo_logRequest repo request w =
     returned_id (query (dbService repo)
       (InsertRequest (req_endpoint request) (req_method request)
          (headersJson (req_headers request)) (bodyJson (req_body request))) w)"

definition repo_logResponse :: "ApiLogRepository \<Rightarrow> ApiResponseLog \<Rightarrow> world \<Rightarrow> (js_error + int) \<times> world" where
  "repo_logResponse repo response w =
     returned_id (query (dbService repo)
       (InsertResponse (res_requestId response) (res_statusCode response)
          (headersJson (res_headers response)) (bodyJson (res_body response))
          (res_responseTimeMs response)) w)"

definition returned_requests :: "(js_error + rows) \<times> world \<Rightarrow> (js_error + request_row list) \<times> world" where
  "returned_requests r =
     (case r of
        (Inl e, w1) \<Rightarrow> (Inl e, w1)
      | (Inr (RequestRows xs), w1) \<Rightarrow> (Inr xs, w1)
      | (Inr other, w1) \<Rightarrow> (Inr [], w1))"

definition getAllRequests :: "ApiLogRepository \<Rightarrow> world \<Rightarrow> (js_error + request_row list) \<times> world" where
  "getAllRequests repo w = returned_requests (query (dbService repo) SelectAllRequests w)"

definition getRequestsByEndpoint :: "ApiLogRepository \<Rightarrow> string \<Rightarrow> world \<Rightarrow> (js_error + request_row list) \<times> world" where
  "getRequestsByEndpoint repo endpoint w =
     returned_requests (query (dbService repo) (SelectRequestsByEndpoint (''%'' @ endpoint @ ''%'')) w)"

definition getFailedResponses :: "ApiLogRepository \<Rightarrow> world \<Rightarrow> (js_error + (string \<times> string \<times> response_row) list) \<times> world" where
  "getFailedResponses repo w =
     (case query (dbService repo) SelectFailedResponses w of
        (Inl e, w1) \<Rightarrow> (Inl e, w1)
      | (Inr (FailedRows xs), w1) \<Rightarrow> (Inr xs, w1)
      | (Inr other, w1) \<Rightarrow> (Inr [], w1))"

section \<open>ApiClientService: the instrumented client\<close>

text \<open>
  \<open>apiContext\<close> is the HTTP capability: for a request, the response or the transport
  error it throws, and the milliseconds the call takes.
\<close>

record ApiClientService =
  apiContext :: "http_request \<Rightarrow> (js_error + APIResponse) \<times> nat"
  baseUrl :: string
  enableDbLogging :: bool
  logRepository :: "ApiLogRepository option"

text \<open>
  The constructor; \<open>configBaseUrl\<close> is \<^verbatim>\<open>Config.getInstance().getApiConfig().baseUrl\<close>.
  The \<^verbatim>\<open>&&\<close> asks for the singleton only when logging was requested.
\<close>

definition new_ApiClientService ::
  "(http_request \<Rightarrow> (js_error + APIResponse) \<times> nat) \<Rightarrow> string \<Rightarrow> bool \<Rightarrow> world \<Rightarrow> ApiClientService \<times> world" where
  "new_ApiClientService ctx configBaseUrl enableLogging w =
     (let c = \<lparr>apiContext = ctx, baseUrl = configBaseUrl, enableDbLogging = enableLogging,
                logRepository = None\<rparr>
      in if enableLogging then
           (let (r, w1) = getInstance w in
            if isInitialized r w1 then
              (let (repo, w2) = new_ApiLogRepository w1 in (c\<lparr>logRepository := Some repo\<rparr>, w2))
            else (c, w1))
         else (c, w))"

text \<open>
  \<^verbatim>\<open>new URLSearchParams(params).toString()\<close>: the form-urlencoded serialisation. A string
  is its UTF-8 bytes; a space becomes \<^verbatim>\<open>+\<close>, an ASCII letter or digit and each of
  \<^verbatim>\<open>* - . _\<close> stays, every other byte becomes \<^verbatim>\<open>%XX\<close>.
\<close>

definition hex_digit :: "nat \<Rightarrow> char" where
  "hex_digit n = ''0123456789ABCDEF'' ! (n mod 16)"

definition is_alnum :: "char \<Rightarrow> bool" where
  "is_alnum c =
     (let n = of_char c :: nat in
      (48 \<le> n \<and> n \<le> 57) \<or> (65 \<le> n \<and> n \<le> 90) \<or> (97 \<le> n \<and> n \<le> 122))"

definition urlencode_byte :: "char \<Rightarrow> string" where
  "urlencode_byte c =
     (if c = CHR '' '' then ''+''
      else if is_alnum c \<or> c \<in> set ''*-._'' then [c]
      else [CHR ''%'', hex_digit (of_char c div 16), hex_digit (of_char c mod 16)])"

definition urlencode :: "string \<Rightarrow> string" where
  "urlencode s = concat (map urlencode_byte s)"

fun join_amp :: "string list \<Rightarrow> string" where
  "join_amp [] = []"
| "join_amp [x] = x"
| "join_amp (x # y # ys) = x @ ''&'' @ join_amp (y # ys)"

definition URLSearchParams_toString :: "headers \<Rightarrow> string" where
  "URLSearchParams_toString params =
     join_amp (map (\<lambda>(k, v). urlencode k @ ''='' @ urlencode v) params)"

definition buildUrl :: "ApiClientService \<Rightarrow> string \<Rightarrow> headers option \<Rightarrow> string" where
  "buildUrl c endpoint params =
     (let url = (if prefix ''http'' endpoint then endpoint else baseUrl c @ endpoint) in
      case params of
        None \<Rightarrow> url
      | Some ps \<Rightarrow> url @ ''?'' @ URLSearchParams_toString ps)"

definition http_call :: "ApiClientService \<Rightarrow> http_request \<Rightarrow> world \<Rightarrow> (js_error + APIResponse) \<times> world" where
  "http_call c rq w =
     (let (r, ms) = apiContext c rq in
      (r, w\<lparr>trace := trace w @ [Http rq], clock := clock w + int ms\<rparr>))"

text \<open>
  The private \<^verbatim>\<open>logResponse\<close>: the body is the parsed JSON, else the raw text, else
  \<^verbatim>\<open>null\<close>; the headers are those of the response, else \<^verbatim>\<open>{}\<close>. The repository call is
  not guarded: its error leaves this function.
\<close>

definition logResponse :: "ApiClientService \<Rightarrow> int \<Rightarrow> APIResponse \<Rightarrow> int \<Rightarrow> world \<Rightarrow> (js_error + unit) \<times> world" where
  "logResponse c requestId response startTime w =
     (case logRepository c of
        None \<Rightarrow> (Inr (), w)
      | Some repo \<Rightarrow>
          (let responseTime = clock w - startTime;
               responseBody =
                 (case resp_json response of
                    Some v \<Rightarrow> v
                  | None \<Rightarrow> (case resp_text response of Some s \<Rightarrow> JStr s | None \<Rightarrow> JNull));
               responseHeaders = (case resp_headers response of Some h \<Rightarrow> h | None \<Rightarrow> []);
               responseLog = \<lparr>res_requestId = requestId, res_statusCode = resp_status response,
                               res_headers = Some responseHeaders, res_body = Some responseBody,
                               res_responseTimeMs = responseTime\<rparr>
           in case repo_logResponse repo responseLog w of
                (Inl e, w1) \<Rightarrow> (Inl e, w1)
              | (Inr i, w1) \<Rightarrow> (Inr (), w1)))"

text \<open>\<^verbatim>\<open>error.status || 500\<close> and \<^verbatim>\<open>error.message || 'Unknown error'\<close>.\<close>

definition status_or_500 :: "js_error \<Rightarrow> int" where
  "status_or_500 error = (case err_status error of Some s \<Rightarrow> if s \<noteq> 0 then s else 500 | None \<Rightarrow> 500)"

definition message_or_unknown :: "js_error \<Rightarrow> string" where
  "message_or_unknown error =
     (case err_message error of Some m \<Rightarrow> if m \<noteq> [] then m else ''Unknown error''
      | None \<Rightarrow> ''Unknown error'')"

definition errorResponseLog :: "int \<Rightarrow> js_error \<Rightarrow> int \<Rightarrow> ApiResponseLog" where
  "errorResponseLog requestId error responseTime =
     \<lparr>res_requestId = requestId, res_statusCode = status_or_500 error, res_headers = Some [],
      res_body = Some (JObj [(''error'', JStr (message_or_unknown error))]),
      res_responseTimeMs = responseTime\<rparr>"

text \<open>
  The private \<^verbatim>\<open>logErrorResponse\<close>: its repository call is inside \<^verbatim>\<open>try\<close>/\<^verbatim>\<open>catch\<close>, so
  it returns in every case.
\<close>

definition logErrorResponse :: "ApiClientService \<Rightarrow> int \<Rightarrow> js_error \<Rightarrow> int \<Rightarrow> world \<Rightarrow> world" where
  "logErrorResponse c requestId error startTime w =
     (case logRepository c of
        None \<Rightarrow> w
      | Some repo \<Rightarrow>
          (case repo_logResponse repo (errorResponseLog requestId error (clock w - startTime)) w of
             (Inl logError, w1) \<Rightarrow> console_error ''Failed to log error response:'' w1
           | (Inr i, w1) \<Rightarrow> w1))"

text \<open>
  The body the five verb methods share, from \<^verbatim>\<open>let requestId\<close> on: the request write
  (outside the \<^verbatim>\<open>try\<close>), then the \<^verbatim>\<open>try\<close> block (the HTTP call and the response write),
  whose \<^verbatim>\<open>catch\<close> logs an error response and throws the caught error again.
\<close>

definition catch_block :: "ApiClientService \<Rightarrow> int option \<Rightarrow> js_error \<Rightarrow> int \<Rightarrow> world \<Rightarrow> (js_error + APIResponse) \<times> world" where
  "catch_block c requestId error startTime w =
     (case requestId of
        None \<Rightarrow> (Inl error, w)
      | Some i \<Rightarrow> (Inl error, logErrorResponse c i error startTime w))"

definition perform :: "ApiClientService \<Rightarrow> ApiRequest \<Rightarrow> http_request \<Rightarrow> int \<Rightarrow> world \<Rightarrow> (js_error + APIResponse) \<times> world" where
  "perform c request call startTime w =
     (case (case logRepository c of
              None \<Rightarrow> (Inr None, w)
            | Some repo \<Rightarrow>
                (case repo_logRequest repo request w of
                   (Inl e, w1) \<Rightarrow> (Inl e, w1)
                 | (Inr i, w1) \<Rightarrow> (Inr (Some i), w1))) of
        (Inl e, w1) \<Rightarrow> (Inl e, w1)
      | (Inr requestId, w1) \<Rightarrow>
          (case http_call c call w1 of
             (Inl error, w2) \<Rightarrow> catch_block c requestId error startTime w2
           | (Inr response, w2) \<Rightarrow>
               (case (case requestId of
                        None \<Rightarrow> (Inr (), w2)
                      | Some i \<Rightarrow> logResponse c i response startTime w2) of
                  (Inl error, w3) \<Rightarrow> catch_block c requestId error startTime w3
                | (Inr u, w3) \<Rightarrow> (Inr response, w3))))"

definition or_empty :: "headers option \<Rightarrow> headers" where
  "or_empty h = (case h of None \<Rightarrow> [] | Some x \<Rightarrow> x)"

text \<open>Assigning a property: an existing key keeps its place.\<close>

fun set_prop :: "string \<Rightarrow> string \<Rightarrow> headers \<Rightarrow> headers" where
  "set_prop k v [] = [(k, v)]"
| "set_prop k v ((k', v') # kvs) =
     (if k' = k then (k, v) # kvs else (k', v') # set_prop k v kvs)"

text \<open>\<^verbatim>\<open>{ 'Content-Type': 'application/json', ...options.headers }\<close>\<close>

definition json_headers :: "headers option \<Rightarrow> headers" where
  "json_headers h =
     fold (\<lambda>(k, v). set_prop k v) (or_empty h) [(''Content-Type'', ''application/json'')]"

definition get :: "ApiClientService \<Rightarrow> string \<Rightarrow> headers option \<Rightarrow> headers option \<Rightarrow> world \<Rightarrow> (js_error + APIResponse) \<times> world" where
  "get c endpoint hdrs params w =
     (let url = buildUrl c endpoint params;
          startTime = clock w;
          request = \<lparr>req_endpoint = url, req_method = ''GET'', req_headers = Some (or_empty hdrs),
                     req_body = None\<rparr>
      in perform c request
           \<lparr>http_method = ''GET'', http_url = url, http_data = None, http_headers = hdrs\<rparr>
           startTime w)"

definition post :: "ApiClientService \<Rightarrow> string \<Rightarrow> json option \<Rightarrow> headers option \<Rightarrow> world \<Rightarrow> (js_error + APIResponse) \<times> world" where
  "post c endpoint data hdrs w =
     (let url = buildUrl c endpoint None;
          startTime = clock w;
          request = \<lparr>req_endpoint = url, req_method = ''POST'',
                     req_headers = Some (json_headers hdrs), req_body = data\<rparr>
      in perform c request
           \<lparr>http_method = ''POST'', http_url = url, http_data = data,
            http_headers = req_headers request\<rparr>
           startTime w)"

definition put :: "ApiClientService \<Rightarrow> string \<Rightarrow> json option \<Rightarrow> headers option \<Rightarrow> world \<Rightarrow> (js_error + APIResponse) \<times> world" where
  "put c endpoint data hdrs w =
     (let url = buildUrl c endpoint None;
          startTime = clock w;
          request = \<lparr>req_endpoint = url, req_method = ''PUT'',
                     req_headers = Some (json_headers hdrs), req_body = data\<rparr>
      in perform c request
           \<lparr>http_method = ''PUT'', http_url = url, http_data = data,
            http_headers = req_headers request\<rparr>
           startTime w)"

definition patch :: "ApiClientService \<Rightarrow> string \<Rightarrow> json option \<Rightarrow> headers option \<Rightarrow> world \<Rightarrow> (js_error + APIResponse) \<times> world" where
  "patch c endpoint data hdrs w =
     (let url = buildUrl c endpoint None;
          startTime = clock w;
          request = \<lparr>req_endpoint = url, req_method = ''PATCH'',
                     req_headers = Some (json_headers hdrs), req_body = data\<rparr>
      in perform c request
           \<lparr>http_method = ''PATCH'', http_url = url, http_data = data,
            http_headers = req_headers request\<rparr>
           startTime w)"

definition delete :: "ApiClientService \<Rightarrow> string \<Rightarrow> headers option \<Rightarrow> world \<Rightarrow> (js_error + APIResponse) \<times> world" where
  "delete c endpoint hdrs w =
     (let url = buildUrl c endpoint None;
          startTime = clock w;
          request = \<lparr>req_endpoint = url, req_method = ''DELETE'', req_headers = Some (or_empty hdrs),
                     req_body = None\<rparr>
      in perform c request
           \<lparr>http_method = ''DELETE'', http_url = url, http_data = None, http_headers = hdrs\<rparr>
           startTime w)"

section \<open>Vocabulary of the properties\<close>

text \<open>A call on the client: the verb method and its arguments.\<close>

datatype call =
    Get string "headers option" "headers option"
  | Post string "json option" "headers option"
  | Put string "json option" "headers option"
  | Patch string "json option" "headers option"
  | Delete string "headers option"

fun invoke :: "ApiClientService \<Rightarrow> call \<Rightarrow> world \<Rightarrow> (js_error + APIResponse) \<times> world" where
  "invoke c (Get e h p) w = get c e h p w"
| "invoke c (Post e d h) w = post c e d h w"
| "invoke c (Put e d h) w = put c e d h w"
| "invoke c (Patch e d h) w = patch c e d h w"
| "invoke c (Delete e h) w = delete c e h w"

fun call_endpoint :: "call \<Rightarrow> string" where
  "call_endpoint (Get e h p) = e"
| "call_endpoint (Post e d h) = e"
| "call_endpoint (Put e d h) = e"
| "call_endpoint (Patch e d h) = e"
| "call_endpoint (Delete e h) = e"

fun call_params :: "call \<Rightarrow> headers option" where
  "call_params (Get e h p) = p"
| "call_params (Post e d h) = None"
| "call_params (Put e d h) = None"
| "call_params (Patch e d h) = None"
| "call_params (Delete e h) = None"

text \<open>
  The \<^verbatim>\<open>request\<close> record a verb method builds and the HTTP request it makes; lemma
  \<open>invoke_perform\<close> below shows that these are the ones the methods use.
\<close>

fun request_of :: "ApiClientService \<Rightarrow> call \<Rightarrow> ApiRequest" where
  "request_of c (Get e h p) =
     \<lparr>req_endpoint = buildUrl c e p, req_method = ''GET'', req_headers = Some (or_empty h),
      req_body = None\<rparr>"
| "request_of c (Post e d h) =
     \<lparr>req_endpoint = buildUrl c e None, req_method = ''POST'',
      req_headers = Some (json_headers h), req_body = d\<rparr>"
| "request_of c (Put e d h) =
     \<lparr>req_endpoint = buildUrl c e None, req_method = ''PUT'',
      req_headers = Some (json_headers h), req_body = d\<rparr>"
| "request_of c (Patch e d h) =
     \<lparr>req_endpoint = buildUrl c e None, req_method = ''PATCH'',
      req_headers = Some (json_headers h), req_body = d\<rparr>"
| "request_of c (Delete e h) =
     \<lparr>req_endpoint = buildUrl c e None, req_method = ''DELETE'',
      req_headers = Some (or_empty h), req_body = None\<rparr>"

fun http_of :: "ApiClientService \<Rightarrow> call \<Rightarrow> http_request" where
  "http_of c (Get e h p) =
     \<lparr>http_method = ''GET'', http_url = buildUrl c e p, http_data = None, http_headers = h\<rparr>"
| "http_of c (Post e d h) =
     \<lparr>http_method = ''POST'', http_url = buildUrl c e None, http_data = d,
      http_headers = Some (json_headers h)\<rparr>"
| "http_of c (Put e d h) =
     \<lparr>http_method = ''PUT'', http_url = buildUrl c e None, http_data = d,
      http_headers = Some (json_headers h)\<rparr>"
| "http_of c (Patch e d h) =
     \<lparr>http_method = ''PATCH'', http_url = buildUrl c e None, http_data = d,
      http_headers = Some (json_headers h)\<rparr>"
| "http_of c (Delete e h) =
     \<lparr>http_method = ''DELETE'', http_url = buildUrl c e None, http_data = None,
      http_headers = h\<rparr>"

text \<open>The HTTP calls and the statements of a trace, in order.\<close>

fun http_events :: "event list \<Rightarrow> http_request list" where
  "http_events [] = []"
| "http_events (Http rq # es) = rq # http_events es"
| "http_events (e # es) = http_events es"


text \<open>The store answers: none of the faults to come is a failure.\<close>

definition no_faults :: "world \<Rightarrow> bool" where
  "no_faults w = (True \<notin> set (faults w))"




text \<open>Two states with the same singleton, services, live pools and constructor count.\<close>

definition same_process :: "world \<Rightarrow> world \<Rightarrow> bool" where
  "same_process w w' =
     (instance_ref w' = instance_ref w \<and> services w' = services w
      \<and> live_pools w' = live_pools w \<and> constructed w' = constructed w)"


text \<open>A pattern without the metacharacters of \<^verbatim>\<open>LIKE\<close>.\<close>

definition literal :: "string \<Rightarrow> bool" where
  "literal p = (\<forall>c\<in>set p. c \<noteq> CHR ''%'' \<and> c \<noteq> CHR ''_'' \<and> c \<noteq> CHR 0x5C)"

text \<open>
  A statement applied to the database, a failed one changing nothing; a database with a
  history is the result of applying a list of statements to the empty database.
\<close>

definition apply_sql :: "(string \<Rightarrow> string option) \<Rightarrow> sql \<Rightarrow> store \<Rightarrow> store" where
  "apply_sql rd q s = (case exec rd q s of Inl e \<Rightarrow> s | Inr (r, s') \<Rightarrow> s')"

text \<open>
  The integrity of the audit tables: request ids are unique and below the sequence, and
  every response row references a request row.
\<close>

definition audit_ok :: "store \<Rightarrow> bool" where
  "audit_ok s =
     (distinct (map rq_id (api_requests s))
      \<and> (\<forall>r\<in>set (api_requests s). rq_id r \<le> requests_id_seq s)
      \<and> (\<forall>res\<in>set (api_responses s). \<exists>i. rs_request_id res = Some i \<and> i \<in> rq_id ` set (api_requests s)))"

subsection \<open>Example states\<close>

text \<open>
  An example of a store's reading: text of the shape of an identifier (a letter or an
  underscore, then letters, digits, underscores and dollar signs) is read in lower case,
  any other text is refused.
\<close>

definition to_lower :: "char \<Rightarrow> char" where
  "to_lower c =
     (case map_of (zip ''ABCDEFGHIJKLMNOPQRSTUVWXYZ'' ''abcdefghijklmnopqrstuvwxyz'') c of
        None \<Rightarrow> c
      | Some l \<Rightarrow> l)"

definition unquoted :: "string \<Rightarrow> string option" where
  "unquoted name =
     (case name of
        [] \<Rightarrow> None
      | c # cs \<Rightarrow>
          if (is_alnum c \<and> \<not> (48 \<le> (of_char c :: nat) \<and> (of_char c :: nat) \<le> 57) \<or> c = CHR ''_'')
             \<and> list_all (\<lambda>x. is_alnum x \<or> x = CHR ''_'' \<or> x = CHR ''$'') cs
          then Some (map to_lower name)
          else None)"

definition provisioned_store :: store where
  "provisioned_store =
     \<lparr>schemata = [''api_test''],
      tables = [(''api_test'', ''api_requests''), (''api_test'', ''api_responses'')],
      api_requests = [], api_responses = [], requests_id_seq = 0, responses_id_seq = 0,
      db_now = 0\<rparr>"

text \<open>A process that has just started, with the faults to come.\<close>

definition fresh_world :: "bool list \<Rightarrow> world" where
  "fresh_world fs =
     \<lparr>instance_ref = None, services = (\<lambda>r. new_DatabaseService), constructed = 0,
      live_pools = [], running_containers = [], next_handle = 0, production = False,
      db = empty_store, faults = fs, trace = [], clock = 0,
      reads = unquoted\<rparr>"

text \<open>
  A process whose singleton was initialised on a container (handle 0, pool handle 1) and
  whose database is provisioned, with the faults to come.
\<close>

definition ready_world :: "bool list \<Rightarrow> world" where
  "ready_world fs =
     \<lparr>instance_ref = Some 0,
      services = (\<lambda>r. new_DatabaseService)
        (0 := \<lparr>pool = Some 1, container = Some 0, isTestContainerMode = True\<rparr>),
      constructed = 1, live_pools = [1], running_containers = [0], next_handle = 2,
      production = False, db = provisioned_store, faults = fs, trace = [], clock = 0,
      reads = unquoted\<rparr>"

definition example_response :: APIResponse where
  "example_response =
     \<lparr>resp_status = 200, resp_json = Some (JObj [(''id'', JNum 1)]), resp_text = Some ''raw'',
      resp_headers = Some [(''content-type'', ''application/json'')]\<rparr>"

definition server_ok :: "http_request \<Rightarrow> (js_error + APIResponse) \<times> nat" where
  "server_ok rq = (Inr example_response, 25)"

definition server_down :: "http_request \<Rightarrow> (js_error + APIResponse) \<times> nat" where
  "server_down rq = (Inl (Error ''connect ECONNREFUSED''), 3)"

definition logging_client :: "(http_request \<Rightarrow> (js_error + APIResponse) \<times> nat) \<Rightarrow> ApiClientService" where
  "logging_client ctx =
     \<lparr>apiContext = ctx, baseUrl = ''https://dummyjson.com'', enableDbLogging = True,
      logRepository = Some \<lparr>dbService = 0\<rparr>\<rparr>"

text \<open>A server whose transport error carries the status 0 and an empty message.\<close>

definition server_status0 :: "http_request \<Rightarrow> (js_error + APIResponse) \<times> nat" where
  "server_status0 rq = (Inl \<lparr>err_status = Some 0, err_message = Some []\<rparr>, 3)"



text \<open>Three logged calls: a 200, a 404 and a 500.\<close>

definition example_history :: "sql list" where
  "example_history =
     [CreateSchemaIfNotExists ''api_test'',
      createRequestsTableQuery ''api_test'',
      createResponsesTableQuery ''api_test'',
      InsertRequest ''https://dummyjson.com/users/1'' ''GET'' None None,
      InsertResponse 1 200 None None 20,
      InsertRequest ''https://dummyjson.com/users/0'' ''GET'' None None,
      InsertResponse 2 404 None None 15,
      InsertRequest ''https://dummyjson.com/auth/login'' ''POST'' None None,
      InsertResponse 3 500 None None 30]"

definition logged_world :: world where
  "logged_world = (ready_world [])\<lparr>db := fold (apply_sql unquoted) example_history empty_store\<rparr>"

section \<open>The names the source writes\<close>

lemma reading_written [simp]:
  "reading rd ''api_test'' = Some ''api_test''"
  "reading rd ''api_requests'' = Some ''api_requests''"
  "reading rd ''api_responses'' = Some ''api_responses''"
  by (simp_all add: reading_def)

lemma read_table_written [simp]:
  "read_table rd (''api_test'', ''api_requests'') = Some (''api_test'', ''api_requests'')"
  "read_table rd (''api_test'', ''api_responses'') = Some (''api_test'', ''api_responses'')"
  by (simp_all add: read_table_def)

lemma read_table_Some:
  "reading rd a = Some n \<Longrightarrow> reading rd b = Some t \<Longrightarrow> read_table rd (a, b) = Some (n, t)"
  by (simp add: read_table_def)

section \<open>The instrumented client: what a call does\<close>

lemma invoke_perform:
  "invoke c call w = perform c (request_of c call) (http_of c call) (clock w) w"
  by (cases call) (simp_all add: get_def post_def put_def patch_def delete_def Let_def)

lemma http_events_append: "http_events (xs @ ys) = http_events xs @ http_events ys"
  by (induction xs rule: http_events.induct) simp_all


lemma send_http_events:
  "send q w = (r, w1) \<Longrightarrow> http_events (trace w1) = http_events (trace w)"
  by (auto simp: send_def take_fault_def http_events_append
      split: list.splits if_splits sum.splits prod.splits)

lemma query_http_events:
  "query this q w = (r, w1) \<Longrightarrow> http_events (trace w1) = http_events (trace w)"
  by (auto simp: query_def split: option.splits dest: send_http_events)

lemma returned_id_world: "returned_id (r, w1) = (r', w2) \<Longrightarrow> w2 = w1"
  by (auto simp: returned_id_def split: sum.splits rows.splits)

lemma repo_logRequest_http_events:
  "repo_logRequest repo rq w = (r, w1) \<Longrightarrow> http_events (trace w1) = http_events (trace w)"
  unfolding repo_logRequest_def
  by (metis query_http_events returned_id_world surj_pair)

lemma perform_no_repository:
  "logRepository c = None \<Longrightarrow>
     perform c request rq startTime w = (fst (apiContext c rq), snd (http_call c rq w))"
  by (simp add: perform_def http_call_def catch_block_def split: prod.splits sum.splits)

text \<open>The definitions a concrete run unfolds.\<close>

lemmas run_defs =
  ready_world_def fresh_world_def logging_client_def provisioned_store_def empty_store_def
  server_ok_def server_down_def example_response_def repo_logRequest_def repo_logResponse_def
  query_def send_def take_fault_def returned_id_def headersJson_def bodyJson_def
  headers_json_def jsonb_def requests_table_def responses_table_def connection_error_def
  Error_def or_empty_def buildUrl_def console_error_def console_log_def http_call_def
  perform_def logResponse_def catch_block_def logErrorResponse_def errorResponseLog_def
  status_or_500_def message_or_unknown_def

text \<open>
  C1, at a failing input. A client with a repository issues \<^verbatim>\<open>get('/users/1')\<close>; the
  request write succeeds, the server answers 200, and the store fails the response write.
  The error of that write leaves the private \<open>logResponse\<close> inside the \<^verbatim>\<open>try\<close> block, so
  the \<^verbatim>\<open>catch\<close> block takes it for a transport error: the caller gets the logging error
  instead of the response, and an error row with status 500 is written for the call that
  the server answered with 200.
\<close>

theorem response_write_failure_reaches_caller:
  "apiContext (logging_client server_ok)
       (http_of (logging_client server_ok) (Get ''/users/1'' None None))
     = (Inr example_response, 25)
   \<and> fst (get (logging_client server_ok) ''/users/1'' None None (ready_world [False, True]))
     = Inl connection_error
   \<and> map rs_status_code (api_responses (db (snd
         (get (logging_client server_ok) ''/users/1'' None None (ready_world [False, True])))))
     = [500]"
  by (simp add: get_def run_defs Let_def)

text \<open>
  C2 as stated fails for an error whose status is 0 or whose message is empty: the error
  comes back to the caller, but the row that is logged has the status 500, not the
  error's own, and the text \<^verbatim>\<open>Unknown error\<close>, not the error's message.
\<close>

theorem status_zero_logged_as_500:
  "fst (invoke (logging_client server_status0) (Delete ''/users/1'' None) (ready_world []))
     = Inl \<lparr>err_status = Some 0, err_message = Some []\<rparr>
   \<and> map (\<lambda>r. (rs_status_code r, rs_body r))
       (api_responses (db (snd
          (invoke (logging_client server_status0) (Delete ''/users/1'' None) (ready_world [])))))
     = [(500, Some (JObj [(''error'', JStr ''Unknown error'')]))]"
  by (simp add: delete_def server_status0_def run_defs Let_def)

text \<open>
  C2, amended. When a request id was captured and the HTTP call throws, the call ends by throwing
  that same error. Before that, the client hands the repository an error record for the
  request id: its status is the error's own status when it has a non-zero one and 500
  otherwise, its body is \<^verbatim>\<open>{error: message}\<close> with the error's message (or
  \<^verbatim>\<open>'Unknown error'\<close> when the message is missing or empty), its duration is the time since
  the call started. When that write fails, the only effect is a console line.
\<close>

theorem transport_error_logged_then_rethrown:
  assumes "logRepository c = Some repo"
    and "repo_logRequest repo (request_of c call) w = (Inr i, w1)"
    and "http_call c (http_of c call) w1 = (Inl error, w2)"
  shows "invoke c call w =
     (Inl error,
      (case repo_logResponse repo
              \<lparr>res_requestId = i,
               res_statusCode =
                 (case err_status error of None \<Rightarrow> 500 | Some s \<Rightarrow> if s = 0 then 500 else s),
               res_headers = Some [],
               res_body = Some (JObj [(''error'', JStr
                 (case err_message error of
                    None \<Rightarrow> ''Unknown error''
                  | Some m \<Rightarrow> if m = [] then ''Unknown error'' else m))]),
               res_responseTimeMs = clock w2 - clock w\<rparr> w2 of
         (Inl logError, w3) \<Rightarrow> console_error ''Failed to log error response:'' w3
       | (Inr j, w3) \<Rightarrow> w3))"
proof -
  have s: "status_or_500 error =
      (case err_status error of None \<Rightarrow> 500 | Some s \<Rightarrow> if s = 0 then 500 else s)"
    by (simp add: status_or_500_def split: option.splits)
  have m: "message_or_unknown error =
      (case err_message error of None \<Rightarrow> ''Unknown error''
       | Some m \<Rightarrow> if m = [] then ''Unknown error'' else m)"
    by (simp add: message_or_unknown_def split: option.splits)
  show ?thesis
    using assms
    by (simp add: invoke_perform perform_def catch_block_def logErrorResponse_def
        errorResponseLog_def s m)
qed

text \<open>
  The scenario of the specification: a \<^verbatim>\<open>DELETE\<close> whose HTTP call fails, on a healthy
  store. The transport error comes back and a row with status 500 and the error's message
  is persisted for request 1.
\<close>

theorem transport_error_logged_then_rethrown_witness:
  "fst (invoke (logging_client server_down) (Delete ''/users/1'' None) (ready_world []))
     = Inl (Error ''connect ECONNREFUSED'')
   \<and> map (\<lambda>r. (rs_request_id r, rs_status_code r, rs_body r))
       (api_responses (db (snd
          (invoke (logging_client server_down) (Delete ''/users/1'' None) (ready_world [])))))
     = [(Some 1, 500, Some (JObj [(''error'', JStr ''connect ECONNREFUSED'')]))]"
proof -
  let ?c = "logging_client server_down" and ?w = "ready_world []"
  let ?call = "Delete ''/users/1'' None"
  have h1: "logRepository ?c = Some \<lparr>dbService = 0\<rparr>"
    by (simp add: logging_client_def)
  obtain w1 where h2:
    "repo_logRequest \<lparr>dbService = 0\<rparr> (request_of ?c ?call) ?w = (Inr 1, w1)"
    by (simp add: run_defs)
  obtain w2 where h3:
    "http_call ?c (http_of ?c ?call) w1 = (Inl (Error ''connect ECONNREFUSED''), w2)"
    by (simp add: http_call_def logging_client_def server_down_def)
  from transport_error_logged_then_rethrown[OF h1 h2 h3] h2 h3 show ?thesis
    by (auto simp add: run_defs)
qed

text \<open>
  C4. With a repository in place, when the request write fails the call ends with that
  error, in the state the failed write left, and no HTTP call has been added to the
  trace: the network call is not made.
\<close>

theorem request_write_failure_propagates:
  assumes "logRepository c = Some repo"
    and "repo_logRequest repo (request_of c call) w = (Inl e, w1)"
  shows "invoke c call w = (Inl e, w1) \<and> http_events (trace w1) = http_events (trace w)"
  using assms repo_logRequest_http_events[OF assms(2)]
  by (simp add: invoke_perform perform_def)

theorem request_write_failure_propagates_witness:
  "fst (invoke (logging_client server_ok) (Get ''/users'' None None) (ready_world [True]))
     = Inl connection_error
   \<and> http_events (trace (snd
        (invoke (logging_client server_ok) (Get ''/users'' None None) (ready_world [True]))))
     = []"
proof -
  let ?c = "logging_client server_ok" and ?w = "ready_world [True]"
  have h1: "logRepository ?c = Some \<lparr>dbService = 0\<rparr>"
    by (simp add: logging_client_def)
  obtain w1 where h2:
    "repo_logRequest \<lparr>dbService = 0\<rparr> (request_of ?c (Get ''/users'' None None)) ?w
       = (Inl connection_error, w1)"
    by (simp add: run_defs)
  from request_write_failure_propagates[OF h1 h2] show ?thesis
    by (simp add: ready_world_def)
qed

text \<open>
  C10. A client constructed with logging requested while the singleton has no pool gets no
  repository; it holds the HTTP context and the base URL it was given, and the
  construction does nothing but fetch the singleton. From then on, in every state (also
  one in which the database has been initialised since), every call returns exactly what
  that HTTP context returns or throws for the request to the resolved URL, and changes
  the state only by that HTTP call: nothing is sent to the store.
\<close>

theorem logging_stays_disabled:
  assumes "new_ApiClientService ctx base True w = (c, w0)"
    and "\<not> isInitialized (fst (getInstance w)) (snd (getInstance w))"
  shows "logRepository c = None \<and> apiContext c = ctx \<and> baseUrl c = base
     \<and> w0 = snd (getInstance w)
     \<and> (\<forall>w' call. invoke c call w' =
          (fst (ctx (http_of c call)),
           w'\<lparr>trace := trace w' @ [Http (http_of c call)],
              clock := clock w' + int (snd (ctx (http_of c call)))\<rparr>)
        \<and> http_url (http_of c call) =
            (if prefix ''http'' (call_endpoint call) then call_endpoint call
             else base @ call_endpoint call)
            @ (case call_params call of
                 None \<Rightarrow> []
               | Some ps \<Rightarrow> ''?'' @ URLSearchParams_toString ps))"
proof -
  have n: "logRepository c = None" and a: "apiContext c = ctx" and b: "baseUrl c = base"
    and s: "w0 = snd (getInstance w)"
    using assms by (auto simp: new_ApiClientService_def Let_def split: prod.splits)
  have u: "http_url (http_of c call) =
            (if prefix ''http'' (call_endpoint call) then call_endpoint call
             else base @ call_endpoint call)
            @ (case call_params call of
                 None \<Rightarrow> []
               | Some ps \<Rightarrow> ''?'' @ URLSearchParams_toString ps)" for call
    using b by (cases call) (simp_all add: buildUrl_def Let_def split: option.splits)
  show ?thesis
    using n a b s u
    by (simp add: invoke_perform perform_no_repository http_call_def split: prod.splits)
qed

text \<open>
  A client built in a process that has just started, then used after the database was
  initialised: no repository, the response comes back, and the trace of the call is the
  one HTTP request.
\<close>

theorem logging_stays_disabled_witness:
  "logRepository (fst (new_ApiClientService server_ok ''https://dummyjson.com'' True
       (fresh_world []))) = None
   \<and> fst (invoke (fst (new_ApiClientService server_ok ''https://dummyjson.com'' True
         (fresh_world []))) (Get ''/users'' None None) (ready_world []))
     = Inr example_response
   \<and> trace (snd (invoke (fst (new_ApiClientService server_ok
         ''https://dummyjson.com'' True (fresh_world []))) (Get ''/users'' None None)
         (ready_world [])))
     = [Http \<lparr>http_method = ''GET'', http_url = ''https://dummyjson.com/users'',
              http_data = None, http_headers = None\<rparr>]"
proof -
  obtain c w0 where h1:
    "new_ApiClientService server_ok ''https://dummyjson.com'' True (fresh_world []) = (c, w0)"
    by (cases "new_ApiClientService server_ok ''https://dummyjson.com'' True (fresh_world [])")
  have h2: "\<not> isInitialized (fst (getInstance (fresh_world [])))
      (snd (getInstance (fresh_world [])))"
    by (simp add: isInitialized_def getInstance_def fresh_world_def new_DatabaseService_def
        Let_def)
  let ?call = "Get ''/users'' None None"
  from logging_stays_disabled[OF h1 h2]
  have n: "logRepository c = None" and b: "baseUrl c = ''https://dummyjson.com''"
    and q: "invoke c ?call (ready_world []) =
        (fst (server_ok (http_of c ?call)),
         (ready_world [])\<lparr>trace := trace (ready_world []) @ [Http (http_of c ?call)],
            clock := clock (ready_world []) + int (snd (server_ok (http_of c ?call)))\<rparr>)"
    by blast+
  have h: "http_of c ?call = \<lparr>http_method = ''GET'', http_url = ''https://dummyjson.com/users'',
              http_data = None, http_headers = None\<rparr>"
    using b by (simp add: buildUrl_def)
  show ?thesis
    unfolding h1 fst_conv q n h by (simp add: server_ok_def ready_world_def)
qed

section \<open>The URL of a call\<close>

lemma send_trace: "send q w = (r, w1) \<Longrightarrow> trace w1 = trace w @ [Sent q]"
  by (auto simp: send_def take_fault_def split: list.splits if_splits sum.splits prod.splits)

lemma query_trace: "query this q w = (r, w1) \<Longrightarrow> \<exists>evs. trace w1 = trace w @ evs"
  by (auto simp: query_def split: option.splits dest: send_trace)

lemma repo_logResponse_trace:
  "repo_logResponse repo x w = (r, w1) \<Longrightarrow> \<exists>evs. trace w1 = trace w @ evs"
  unfolding repo_logResponse_def
  by (metis query_trace returned_id_world surj_pair)

lemma logResponse_trace:
  "logResponse c i response t w = (r, w1) \<Longrightarrow> \<exists>evs. trace w1 = trace w @ evs"
  by (auto simp: logResponse_def Let_def split: option.splits prod.splits sum.splits
      dest: repo_logResponse_trace)

lemma logErrorResponse_trace:
  "\<exists>evs. trace (logErrorResponse c i e t w) = trace w @ evs"
proof (cases "logRepository c")
  case None
  then show ?thesis by (simp add: logErrorResponse_def)
next
  case (Some repo)
  obtain r w1 where s: "repo_logResponse repo (errorResponseLog i e (clock w - t)) w = (r, w1)"
    by (cases "repo_logResponse repo (errorResponseLog i e (clock w - t)) w")
  from repo_logResponse_trace[OF s] obtain evs where "trace w1 = trace w @ evs" by blast
  then show ?thesis using Some s
    by (cases r) (simp_all add: logErrorResponse_def console_error_def)
qed

lemma catch_block_trace:
  "\<exists>evs. trace (snd (catch_block c rid e t w)) = trace w @ evs"
  using logErrorResponse_trace by (cases rid) (simp_all add: catch_block_def)

lemma perform_after_request_write:
  assumes "logRepository c = Some repo"
    and "repo_logRequest repo request w = (Inr i, w1)"
  shows "\<exists>evs. trace (snd (perform c request rq t w)) = trace w1 @ Http rq # evs"
proof -
  obtain r w2 where h: "http_call c rq w1 = (r, w2)" by (cases "http_call c rq w1")
  have t2: "trace w2 = trace w1 @ [Http rq]"
    using h by (auto simp: http_call_def split: prod.splits)
  show ?thesis
  proof (cases r)
    case (Inl e)
    from catch_block_trace[of c "Some i" e t w2] obtain evs where
      "trace (snd (catch_block c (Some i) e t w2)) = trace w2 @ evs" by blast
    then show ?thesis using assms h Inl t2 by (simp add: perform_def)
  next
    case (Inr response)
    obtain r3 w3 where l: "logResponse c i response t w2 = (r3, w3)"
      by (cases "logResponse c i response t w2")
    from logResponse_trace[OF l] obtain evs3 where t3: "trace w3 = trace w2 @ evs3" by blast
    show ?thesis
    proof (cases r3)
      case (Inl e)
      from catch_block_trace[of c "Some i" e t w3] obtain evs where
        "trace (snd (catch_block c (Some i) e t w3)) = trace w3 @ evs" by blast
      then show ?thesis using assms h Inr l Inl t2 t3 by (simp add: perform_def)
    next
      case (Inr u)
      then show ?thesis using assms h \<open>r = Inr response\<close> l t2 t3 by (simp add: perform_def)
    qed
  qed
qed

lemma repo_logRequest_answers:
  assumes "pool (services w (dbService repo)) \<noteq> None"
    and "\<not> fst (take_fault w)"
    and "requests_table \<in> set (tables (db w))"
  shows "\<exists>i w1. repo_logRequest repo request w = (Inr i, w1)
     \<and> trace w1 = trace w @ [Sent (InsertRequest (req_endpoint request) (req_method request)
         (headersJson (req_headers request)) (bodyJson (req_body request)))]"
  using assms
  by (cases "faults w")
    (auto simp: repo_logRequest_def query_def send_def returned_id_def take_fault_def Let_def)

text \<open>
  C8 as stated fails: the client takes an endpoint for absolute when it starts with the
  characters \<^verbatim>\<open>http\<close>. An absolute URL whose scheme is written in capitals gets the base
  URL in front, and a relative endpoint that starts with \<^verbatim>\<open>http\<close> does not.
\<close>

theorem absolute_is_decided_by_prefix:
  "http_url (http_of (logging_client server_ok) (Get ''HTTPS://dummyjson.com/users/1'' None None))
     = ''https://dummyjson.comHTTPS://dummyjson.com/users/1''
   \<and> req_endpoint (request_of (logging_client server_ok) (Get ''httpbin/get'' None None))
     = ''httpbin/get''"
  by (simp add: buildUrl_def logging_client_def)

text \<open>
  C8, amended. Every call runs the shared body with a request record and an HTTP request
  that carry the same URL. That URL is the endpoint itself when the endpoint starts with
  \<^verbatim>\<open>http\<close>, and the configured base URL followed by the endpoint otherwise; a \<^verbatim>\<open>get\<close>
  that is given query parameters appends \<^verbatim>\<open>?\<close> and their form-urlencoded serialisation.
  In the run: without a repository the call adds to the trace the HTTP call to that URL
  and nothing else; with a repository on an initialised service whose store answers, it
  first sends the request row with that URL and then makes the HTTP call to it.
\<close>

theorem url_resolution:
  "invoke c call w = perform c (request_of c call) (http_of c call) (clock w) w
   \<and> req_endpoint (request_of c call) = http_url (http_of c call)
   \<and> http_url (http_of c call) =
       (if prefix ''http'' (call_endpoint call) then call_endpoint call
        else baseUrl c @ call_endpoint call)
       @ (case call_params call of
            None \<Rightarrow> []
          | Some ps \<Rightarrow> ''?'' @ URLSearchParams_toString ps)
   \<and> (logRepository c = None \<longrightarrow>
         trace (snd (invoke c call w)) = trace w @ [Http (http_of c call)])
   \<and> (\<forall>repo. logRepository c = Some repo \<and> pool (services w (dbService repo)) \<noteq> None
          \<and> \<not> fst (take_fault w) \<and> requests_table \<in> set (tables (db w)) \<longrightarrow>
         (\<exists>evs. trace (snd (invoke c call w)) =
            trace w @ Sent (InsertRequest (http_url (http_of c call))
                        (req_method (request_of c call))
                        (headersJson (req_headers (request_of c call)))
                        (bodyJson (req_body (request_of c call))))
              # Http (http_of c call) # evs))"
proof -
  have u: "req_endpoint (request_of c call) = http_url (http_of c call)"
    by (cases call) simp_all
  have f: "http_url (http_of c call) =
       (if prefix ''http'' (call_endpoint call) then call_endpoint call
        else baseUrl c @ call_endpoint call)
       @ (case call_params call of
            None \<Rightarrow> []
          | Some ps \<Rightarrow> ''?'' @ URLSearchParams_toString ps)"
    by (cases call) (simp_all add: buildUrl_def Let_def split: option.splits)
  have n: "logRepository c = None \<longrightarrow>
         trace (snd (invoke c call w)) = trace w @ [Http (http_of c call)]"
    by (simp add: invoke_perform perform_no_repository http_call_def split: prod.splits)
  have l: "\<exists>evs. trace (snd (invoke c call w)) =
            trace w @ Sent (InsertRequest (http_url (http_of c call))
                        (req_method (request_of c call))
                        (headersJson (req_headers (request_of c call)))
                        (bodyJson (req_body (request_of c call))))
              # Http (http_of c call) # evs"
    if h: "logRepository c = Some repo" "pool (services w (dbService repo)) \<noteq> None"
      "\<not> fst (take_fault w)" "requests_table \<in> set (tables (db w))" for repo
  proof -
    from repo_logRequest_answers[OF h(2-4), of "request_of c call"] obtain i w1 where
      r: "repo_logRequest repo (request_of c call) w = (Inr i, w1)"
        "trace w1 = trace w @ [Sent (InsertRequest (req_endpoint (request_of c call))
           (req_method (request_of c call)) (headersJson (req_headers (request_of c call)))
           (bodyJson (req_body (request_of c call))))]"
      by blast
    from perform_after_request_write[OF h(1) r(1), of "http_of c call" "clock w"] r(2) u
    show ?thesis by (simp add: invoke_perform)
  qed
  show ?thesis
    using invoke_perform[of c call w] u f n l by blast
qed

theorem url_resolution_witness:
  "http_url (http_of (logging_client server_ok)
       (Get ''/users/search'' None (Some [(''q'', ''a b&c''), (''limit'', ''5'')])))
     = ''https://dummyjson.com/users/search?q=a+b%26c&limit=5''
   \<and> http_url (http_of (logging_client server_ok) (Post ''https://example.org/x'' None None))
     = ''https://example.org/x''
   \<and> take 2 (trace (snd (invoke (logging_client server_ok)
        (Get ''/users/search'' None (Some [(''q'', ''a b&c''), (''limit'', ''5'')])) (ready_world []))))
     = [Sent (InsertRequest ''https://dummyjson.com/users/search?q=a+b%26c&limit=5'' ''GET''
          (Some (JSON_stringify (JObj []))) None),
        Http \<lparr>http_method = ''GET'',
              http_url = ''https://dummyjson.com/users/search?q=a+b%26c&limit=5'',
              http_data = None, http_headers = None\<rparr>]"
proof -
  let ?c = "logging_client server_ok"
  let ?call = "Get ''/users/search'' None (Some [(''q'', ''a b&c''), (''limit'', ''5'')])"
  have h: "logRepository ?c = Some \<lparr>dbService = 0\<rparr>
      \<and> pool (services (ready_world []) (dbService \<lparr>dbService = 0\<rparr>)) \<noteq> None
      \<and> \<not> fst (take_fault (ready_world []))
      \<and> requests_table \<in> set (tables (db (ready_world [])))"
    by (simp add: logging_client_def ready_world_def take_fault_def provisioned_store_def
        requests_table_def)
  have e: "http_url (http_of ?c ?call) = ''https://dummyjson.com/users/search?q=a+b%26c&limit=5''"
    "http_url (http_of ?c (Post ''https://example.org/x'' None None)) = ''https://example.org/x''"
    by (simp_all add: logging_client_def buildUrl_def URLSearchParams_toString_def urlencode_def
      urlencode_byte_def is_alnum_def hex_digit_def)
  from url_resolution[of ?c ?call "ready_world []"] h obtain evs where
    "trace (snd (invoke ?c ?call (ready_world []))) =
       trace (ready_world []) @ Sent (InsertRequest (http_url (http_of ?c ?call))
                        (req_method (request_of ?c ?call))
                        (headersJson (req_headers (request_of ?c ?call)))
                        (bodyJson (req_body (request_of ?c ?call))))
              # Http (http_of ?c ?call) # evs"
    by blast
  then show ?thesis
    using e by (simp add: ready_world_def headersJson_def bodyJson_def or_empty_def headers_json_def
        del: invoke.simps)
qed

section \<open>The repository: what a request write stores\<close>

text \<open>
  C9 as stated fails: a body that is present but falsy is stored as null. Here the body
  of the request record is \<^verbatim>\<open>false\<close>, and the body column of the inserted row is null.
\<close>

theorem falsy_body_stored_as_null:
  "req_body \<lparr>req_endpoint = ''https://dummyjson.com/flags'', req_method = ''POST'',
             req_headers = None, req_body = Some (JBool False)\<rparr>
     = Some (JBool False)
   \<and> map rq_body (api_requests (db (snd (repo_logRequest \<lparr>dbService = 0\<rparr>
         \<lparr>req_endpoint = ''https://dummyjson.com/flags'', req_method = ''POST'',
          req_headers = None, req_body = Some (JBool False)\<rparr>
         (ready_world [])))))
     = [None]"
  by (simp add: run_defs)

text \<open>
  C9, amended. On an initialised service whose store answers and has the requests table,
  \<open>logRequest\<close> of any record returns the id the store generated and appends exactly one
  row with that id: the endpoint and method strings as given, whatever they are; the
  headers as JSON, null exactly when the record has none; the body as JSON, null exactly
  when the record has none or its body is falsy (\<^verbatim>\<open>null\<close>, \<^verbatim>\<open>false\<close>, \<^verbatim>\<open>0\<close>, the empty
  string).
\<close>

theorem logRequest_row:
  assumes "pool (services w (dbService repo)) \<noteq> None"
    and "\<not> fst (take_fault w)"
    and "requests_table \<in> set (tables (db w))"
  shows "\<exists>w' row. repo_logRequest repo request w = (Inr (rq_id row), w')
     \<and> api_requests (db w') = api_requests (db w) @ [row]
     \<and> row = \<lparr>rq_id = requests_id_seq (db w) + 1,
           rq_endpoint = req_endpoint request,
           rq_method = req_method request,
           rq_headers =
             (case req_headers request of None \<Rightarrow> None | Some h \<Rightarrow> Some (headers_json h)),
           rq_body =
             (case req_body request of
                None \<Rightarrow> None
              | Some b \<Rightarrow> if truthy b then Some b else None),
           rq_timestamp = db_now (db w)\<rparr>
     \<and> (rq_headers row = None \<longleftrightarrow> req_headers request = None)
     \<and> (rq_body row = None \<longleftrightarrow>
          (case req_body request of None \<Rightarrow> True | Some b \<Rightarrow> \<not> truthy b))"
  using assms
  by (auto simp: repo_logRequest_def query_def send_def returned_id_def take_fault_def Let_def
        headersJson_def bodyJson_def jsonb_def
      split: option.splits list.splits prod.splits)

theorem logRequest_row_witness:
  "fst (repo_logRequest \<lparr>dbService = 0\<rparr>
       \<lparr>req_endpoint = ''not a url'', req_method = ''BREW'',
        req_headers = Some [(''Accept'', ''*/*'')], req_body = Some (JObj [(''id'', JNum 0)])\<rparr>
       (ready_world [])) = Inr 1
   \<and> api_requests (db (snd (repo_logRequest \<lparr>dbService = 0\<rparr>
       \<lparr>req_endpoint = ''not a url'', req_method = ''BREW'',
        req_headers = Some [(''Accept'', ''*/*'')], req_body = Some (JObj [(''id'', JNum 0)])\<rparr>
       (ready_world []))))
     = [\<lparr>rq_id = 1, rq_endpoint = ''not a url'', rq_method = ''BREW'',
         rq_headers = Some (JObj [(''Accept'', JStr ''*/*'')]),
         rq_body = Some (JObj [(''id'', JNum 0)]), rq_timestamp = 0\<rparr>]"
proof -
  let ?w = "ready_world []" and ?repo = "\<lparr>dbService = 0\<rparr>"
  have h1: "pool (services ?w (dbService ?repo)) \<noteq> None"
    by (simp add: ready_world_def)
  have h2: "\<not> fst (take_fault ?w)"
    by (simp add: ready_world_def take_fault_def)
  have h3: "requests_table \<in> set (tables (db ?w))"
    by (simp add: ready_world_def provisioned_store_def requests_table_def)
  from logRequest_row[OF h1 h2 h3] show ?thesis
    by (simp add: run_defs)
qed

section \<open>The provisioner: idempotence\<close>


lemma no_faults_tl: "True \<notin> set xs \<Longrightarrow> True \<notin> set (tl xs)"
  by (cases xs) auto

lemma no_faults_simps [simp]:
  "no_faults (w\<lparr>faults := fs\<rparr>) = (True \<notin> set fs)"
  "no_faults (w\<lparr>trace := t\<rparr>) = no_faults w"
  "no_faults (w\<lparr>db := s\<rparr>) = no_faults w"
  "no_faults (console_log m w) = no_faults w"
  by (simp_all add: no_faults_def console_log_def)

lemma no_faults_tlI [simp]: "no_faults w \<Longrightarrow> True \<notin> set (tl (faults w))"
  "no_faults w \<Longrightarrow> True \<notin> set (tl (tl (faults w)))"
  by (simp_all add: no_faults_def no_faults_tl)












section \<open>The singleton and its pool\<close>

lemma same_process_refl [simp]: "same_process w w"
  by (simp add: same_process_def)

lemma same_process_console [simp]: "same_process w (console_log m w)" "same_process w (console_error m w)"
  by (simp_all add: same_process_def console_log_def console_error_def)




















text \<open>
  C5 as stated fails when two calls overlap. Run one after the other, the two parts of
  \<open>initialize\<close> are the call itself.
\<close>

lemma initialize_split:
  "initialize this b w =
     (case initialize_begin this b w of
        (Some r, w1) \<Rightarrow> (r, w1)
      | (None, w1) \<Rightarrow> initialize_resume this w1)"
  by (auto simp: initialize_def initialize_begin_def initialize_resume_def
      initializeTestContainer_def Let_def split: prod.splits sum.splits if_splits)


section \<open>The filtered reads\<close>

lemma like_percent_all: "like ''%'' s"
  by (induction s) simp_all

lemma like_literal_percent: "literal p \<Longrightarrow> like (p @ ''%'') s = prefix p s"
proof (induction p arbitrary: s)
  case Nil
  then show ?case using like_percent_all by simp
next
  case (Cons a p)
  then have "literal p" and "a \<noteq> CHR ''%''" "a \<noteq> CHR ''_''" "a \<noteq> CHR 0x5C"
    by (simp_all add: literal_def)
  with Cons.IH show ?case by (cases s) auto
qed

lemma like_percent_suffix: "like (CHR ''%'' # ps) s = (\<exists>t. suffix t s \<and> like ps t)"
proof (induction s)
  case Nil
  then show ?case by simp
next
  case (Cons c cs)
  have "like (CHR ''%'' # ps) (c # cs) = (like ps (c # cs) \<or> like (CHR ''%'' # ps) cs)" by simp
  also have "\<dots> = (like ps (c # cs) \<or> (\<exists>t. suffix t cs \<and> like ps t))" using Cons.IH by simp
  also have "\<dots> = (\<exists>t. suffix t (c # cs) \<and> like ps t)"
    by (auto simp: suffix_Cons)
  finally show ?case .
qed

lemma like_contains:
  assumes "literal p"
  shows "like (CHR ''%'' # p @ ''%'') s = sublist p s"
proof -
  have "like (CHR ''%'' # p @ ''%'') s = (\<exists>t. suffix t s \<and> like (p @ ''%'') t)"
    by (rule like_percent_suffix)
  also have "\<dots> = (\<exists>t. suffix t s \<and> prefix p t)"
    using like_literal_percent[OF assms] by simp
  also have "\<dots> = sublist p s"
    by (simp add: sublist_altdef')
  finally show ?thesis .
qed

lemma audit_ok_empty: "audit_ok empty_store"
  by (simp add: audit_ok_def empty_store_def)

lemma audit_ok_apply: "audit_ok s \<Longrightarrow> audit_ok (apply_sql rd q s)"
  by (cases q) (auto simp: apply_sql_def audit_ok_def Let_def split: option.splits)

lemma audit_ok_fold: "audit_ok s \<Longrightarrow> audit_ok (fold (apply_sql rd) qs s)"
  by (induction qs arbitrary: s) (simp_all add: audit_ok_apply)

lemma filter_key_unique:
  "distinct (map f xs) \<Longrightarrow> x \<in> set xs \<Longrightarrow> filter (\<lambda>y. f x = f y) xs = [x]"
proof (induction xs)
  case Nil
  then show ?case by simp
next
  case (Cons a xs)
  show ?case
  proof (cases "x = a")
    case True
    have "filter (\<lambda>y. f a = f y) xs = []"
      using Cons.prems(1) by (auto simp: filter_empty_conv)
    with True show ?thesis by simp
  next
    case False
    with Cons.prems have "x \<in> set xs" by simp
    moreover from this Cons.prems(1) have "f x \<noteq> f a" by (metis distinct.simps(2) image_eqI list.simps(9) set_map)
    ultimately show ?thesis using Cons by simp
  qed
qed

lemma join_request_one:
  assumes "audit_ok s" "res \<in> set (api_responses s)"
  shows "\<exists>rq\<in>set (api_requests s). rs_request_id res = Some (rq_id rq)
      \<and> join_request (api_requests s) res = [(rq_endpoint rq, rq_method rq, res)]"
proof -
  from assms obtain rq where rq: "rq \<in> set (api_requests s)" "rs_request_id res = Some (rq_id rq)"
    by (auto simp: audit_ok_def)
  have d: "distinct (map rq_id (api_requests s))" using assms(1) by (simp add: audit_ok_def)
  have "filter (\<lambda>r. rs_request_id res = Some (rq_id r)) (api_requests s) = [rq]"
    using filter_key_unique[OF d rq(1)] rq(2) by simp
  then show ?thesis using rq by (auto simp: join_request_def)
qed

lemma joined_rows:
  assumes "audit_ok s" "set rs \<subseteq> set (api_responses s)"
  shows "map (\<lambda>(e, m, r). r) (concat (map (join_request (api_requests s)) rs)) = rs
     \<and> (\<forall>(e, m, r)\<in>set (concat (map (join_request (api_requests s)) rs)).
           \<exists>rq\<in>set (api_requests s). rs_request_id r = Some (rq_id rq) \<and> e = rq_endpoint rq \<and> m = rq_method rq)"
  using assms(2)
proof (induction rs)
  case Nil
  then show ?case by simp
next
  case (Cons a rs)
  from join_request_one[OF assms(1), of a] Cons.prems obtain rq where
    "rq \<in> set (api_requests s)" "rs_request_id a = Some (rq_id rq)"
    "join_request (api_requests s) a = [(rq_endpoint rq, rq_method rq, a)]" by auto
  with Cons show ?case by auto
qed

lemma order_by_desc_set [simp]: "set (order_by_desc k xs) = set xs"
  by (simp add: order_by_desc_def)

lemma order_by_desc_mset [simp]: "mset (order_by_desc k xs) = mset xs"
  by (simp add: order_by_desc_def)

lemma order_by_desc_sorted: "sorted (rev (map k (order_by_desc k xs)))"
  by (simp add: order_by_desc_def rev_map)

lemma query_answers:
  assumes "pool (services w this) \<noteq> None" "\<not> fst (take_fault w)"
  shows "query this q w =
     (case exec (reads w) q (db w) of
        Inl e \<Rightarrow> (Inl e, w\<lparr>trace := trace w @ [Sent q], faults := tl (faults w)\<rparr>)
      | Inr (r, s) \<Rightarrow> (Inr r, w\<lparr>trace := trace w @ [Sent q], faults := tl (faults w), db := s\<rparr>))"
  using assms
  by (cases "faults w") (auto simp: query_def send_def take_fault_def split: sum.splits)

lemmas store_defs = logged_world_def example_history_def apply_sql_def empty_store_def
  createRequestsTableQuery_def createResponsesTableQuery_def requests_table_def responses_table_def
  jsonb_def Let_def

lemma logged_store:
  "fold (apply_sql unquoted) example_history empty_store =
     \<lparr>schemata = [''api_test''],
      tables = [(''api_test'', ''api_requests''), (''api_test'', ''api_responses'')],
      api_requests =
        [\<lparr>rq_id = 1, rq_endpoint = ''https://dummyjson.com/users/1'', rq_method = ''GET'',
          rq_headers = None, rq_body = None, rq_timestamp = 0\<rparr>,
         \<lparr>rq_id = 2, rq_endpoint = ''https://dummyjson.com/users/0'', rq_method = ''GET'',
          rq_headers = None, rq_body = None, rq_timestamp = 2\<rparr>,
         \<lparr>rq_id = 3, rq_endpoint = ''https://dummyjson.com/auth/login'', rq_method = ''POST'',
          rq_headers = None, rq_body = None, rq_timestamp = 4\<rparr>],
      api_responses =
        [\<lparr>rs_id = 1, rs_request_id = Some 1, rs_status_code = 200, rs_headers = None,
          rs_body = None, rs_response_time_ms = 20, rs_timestamp = 1\<rparr>,
         \<lparr>rs_id = 2, rs_request_id = Some 2, rs_status_code = 404, rs_headers = None,
          rs_body = None, rs_response_time_ms = 15, rs_timestamp = 3\<rparr>,
         \<lparr>rs_id = 3, rs_request_id = Some 3, rs_status_code = 500, rs_headers = None,
          rs_body = None, rs_response_time_ms = 30, rs_timestamp = 5\<rparr>],
      requests_id_seq = 3, responses_id_seq = 3, db_now = 6\<rparr>"
  by (simp add: store_defs)

text \<open>
  C6. On a database with any history, read through an initialised service while the store
  answers and both tables exist, \<open>getFailedResponses\<close> returns rows and changes nothing
  but the trace and the consumed fault flag. The response rows it returns are the rows
  with a status code of at least 400, each once, newest first; each comes with the
  endpoint and method of the request it references.
\<close>

theorem failed_responses_exact:
  assumes "db w = fold (apply_sql rd) history empty_store"
    and "pool (services w (dbService repo)) \<noteq> None"
    and "\<not> fst (take_fault w)"
    and "requests_table \<in> set (tables (db w))"
    and "responses_table \<in> set (tables (db w))"
  shows "\<exists>rows. getFailedResponses repo w =
       (Inr rows, w\<lparr>trace := trace w @ [Sent SelectFailedResponses], faults := tl (faults w)\<rparr>)
     \<and> map (\<lambda>(e, m, r). r) rows =
         order_by_desc rs_timestamp (filter (\<lambda>r. 400 \<le> rs_status_code r) (api_responses (db w)))
     \<and> mset (map (\<lambda>(e, m, r). r) rows) =
         filter_mset (\<lambda>r. 400 \<le> rs_status_code r) (mset (api_responses (db w)))
     \<and> sorted (rev (map (\<lambda>(e, m, r). rs_timestamp r) rows))
     \<and> (\<forall>(e, m, r)\<in>set rows. 400 \<le> rs_status_code r
          \<and> (\<exists>rq\<in>set (api_requests (db w)).
                rs_request_id r = Some (rq_id rq) \<and> e = rq_endpoint rq \<and> m = rq_method rq))"
proof -
  let ?rs = "order_by_desc rs_timestamp (filter (\<lambda>r. 400 \<le> rs_status_code r) (api_responses (db w)))"
  let ?rows = "concat (map (join_request (api_requests (db w))) ?rs)"
  have ok: "audit_ok (db w)"
    using assms(1) audit_ok_fold[OF audit_ok_empty] by simp
  have sub: "set ?rs \<subseteq> set (api_responses (db w))" by auto
  from joined_rows[OF ok sub]
  have m: "map (\<lambda>(e, m, r). r) ?rows = ?rs"
    and j: "\<forall>(e, m, r)\<in>set ?rows. \<exists>rq\<in>set (api_requests (db w)).
           rs_request_id r = Some (rq_id rq) \<and> e = rq_endpoint rq \<and> m = rq_method rq"
    by blast+
  have g: "getFailedResponses repo w =
       (Inr ?rows, w\<lparr>trace := trace w @ [Sent SelectFailedResponses], faults := tl (faults w)\<rparr>)"
    using assms(4,5) by (simp add: getFailedResponses_def query_answers[OF assms(2,3)])
  have t: "map (\<lambda>(e, m, r). rs_timestamp r) ?rows = map rs_timestamp (map (\<lambda>(e, m, r). r) ?rows)"
    by (simp add: case_prod_unfold)
  have s: "sorted (rev (map (\<lambda>(e, m, r). rs_timestamp r) ?rows))"
    unfolding t m by (rule order_by_desc_sorted)
  have st: "\<forall>(e, m, r)\<in>set ?rows. 400 \<le> rs_status_code r"
  proof -
    have "\<forall>r\<in>set (map (\<lambda>(e, m, r). r) ?rows). 400 \<le> rs_status_code r"
      unfolding m by simp
    then show ?thesis by (simp add: case_prod_unfold) 
  qed
  have ms: "mset (map (\<lambda>(e, m, r). r) ?rows) =
         filter_mset (\<lambda>r. 400 \<le> rs_status_code r) (mset (api_responses (db w)))"
    unfolding m by simp
  show ?thesis
    using g m ms s st j by (intro exI[of _ ?rows]) (simp add: case_prod_unfold)
qed

text \<open>The three logged calls: the 500 and the 404 come back, the newer first.\<close>

theorem failed_responses_exact_witness:
  "map (\<lambda>(e, m, r). (e, m, rs_status_code r)) (projr (fst (getFailedResponses \<lparr>dbService = 0\<rparr> logged_world)))
     = [(''https://dummyjson.com/auth/login'', ''POST'', 500), (''https://dummyjson.com/users/0'', ''GET'', 404)]
   \<and> db (snd (getFailedResponses \<lparr>dbService = 0\<rparr> logged_world)) = db logged_world"
proof -
  have h1: "db logged_world = fold (apply_sql unquoted) example_history empty_store"
    by (simp add: logged_world_def)
  have h2: "pool (services logged_world (dbService \<lparr>dbService = 0\<rparr>)) \<noteq> None"
    by (simp add: logged_world_def ready_world_def)
  have h3: "\<not> fst (take_fault logged_world)"
    by (simp add: logged_world_def ready_world_def take_fault_def)
  have h4: "requests_table \<in> set (tables (db logged_world))" and h5: "responses_table \<in> set (tables (db logged_world))"
    by (simp_all add: logged_world_def logged_store requests_table_def responses_table_def)
  from failed_responses_exact[OF h1 h2 h3 h4 h5] obtain rows where
    r: "getFailedResponses \<lparr>dbService = 0\<rparr> logged_world =
       (Inr rows, logged_world\<lparr>trace := trace logged_world @ [Sent SelectFailedResponses], faults := tl (faults logged_world)\<rparr>)"
    by blast
  have e: "fst (getFailedResponses \<lparr>dbService = 0\<rparr> logged_world) = Inr
     [(''https://dummyjson.com/auth/login'', ''POST'', \<lparr>rs_id = 3, rs_request_id = Some 3, rs_status_code = 500, rs_headers = None,
          rs_body = None, rs_response_time_ms = 30, rs_timestamp = 5\<rparr>),
      (''https://dummyjson.com/users/0'', ''GET'', \<lparr>rs_id = 2, rs_request_id = Some 2, rs_status_code = 404, rs_headers = None,
          rs_body = None, rs_response_time_ms = 15, rs_timestamp = 3\<rparr>)]"
    by (simp add: getFailedResponses_def query_def send_def take_fault_def logged_world_def logged_store
        ready_world_def requests_table_def responses_table_def order_by_desc_def join_request_def)
  show ?thesis using r e by simp
qed

text \<open>
  C7, amended. Read through an initialised service while the store answers and the table
  exists, \<open>getRequestsByEndpoint p\<close> returns, newest first, the requests whose endpoint
  matches the \<^verbatim>\<open>LIKE\<close> pattern \<^verbatim>\<open>%p%\<close>. When \<open>p\<close> holds none of the characters \<^verbatim>\<open>%\<close>,
  \<^verbatim>\<open>_\<close> and backslash, these are exactly the requests whose endpoint contains \<open>p\<close> as a
  substring.
\<close>

theorem requests_by_endpoint_like:
  assumes "pool (services w (dbService repo)) \<noteq> None"
    and "\<not> fst (take_fault w)"
    and "requests_table \<in> set (tables (db w))"
  shows "\<exists>rows. getRequestsByEndpoint repo p w =
       (Inr rows, w\<lparr>trace := trace w @ [Sent (SelectRequestsByEndpoint (''%'' @ p @ ''%''))],
                    faults := tl (faults w)\<rparr>)
     \<and> rows = order_by_desc rq_timestamp
                (filter (\<lambda>r. like (''%'' @ p @ ''%'') (rq_endpoint r)) (api_requests (db w)))
     \<and> sorted (rev (map rq_timestamp rows))
     \<and> (literal p \<longrightarrow>
          rows = order_by_desc rq_timestamp
                   (filter (\<lambda>r. sublist p (rq_endpoint r)) (api_requests (db w)))
          \<and> mset rows = filter_mset (\<lambda>r. sublist p (rq_endpoint r)) (mset (api_requests (db w))))"
  using assms(3)
  by (simp add: getRequestsByEndpoint_def returned_requests_def query_answers[OF assms(1,2)]
      order_by_desc_sorted like_contains del: like.simps cong: filter_mset_cong filter_cong)

text \<open>
  C7 as stated fails for a pattern with a metacharacter: the endpoint of the one logged
  request does not contain an underscore, and the search for \<^verbatim>\<open>_\<close> returns it.
\<close>

theorem wildcard_matches_any_endpoint:
  "\<not> sublist ''_'' ''https://dummyjson.com/users/1''
   \<and> map rq_endpoint (projr (fst (getRequestsByEndpoint \<lparr>dbService = 0\<rparr> ''_''
        ((ready_world [])\<lparr>db := fold (apply_sql unquoted)
            [CreateSchemaIfNotExists ''api_test'', createRequestsTableQuery ''api_test'',
             InsertRequest ''https://dummyjson.com/users/1'' ''GET'' None None] empty_store\<rparr>))))
     = [''https://dummyjson.com/users/1'']"
  by (simp add: getRequestsByEndpoint_def returned_requests_def query_def send_def take_fault_def
      ready_world_def store_defs order_by_desc_def sublist_Cons_right)

theorem requests_by_endpoint_like_witness:
  "map rq_id (projr (fst (getRequestsByEndpoint \<lparr>dbService = 0\<rparr> ''users'' logged_world))) = [2, 1]"
proof -
  have h2: "pool (services logged_world (dbService \<lparr>dbService = 0\<rparr>)) \<noteq> None"
    by (simp add: logged_world_def ready_world_def)
  have h3: "\<not> fst (take_fault logged_world)"
    by (simp add: logged_world_def ready_world_def take_fault_def)
  have h4: "requests_table \<in> set (tables (db logged_world))"
    by (simp_all add: logged_world_def logged_store requests_table_def)
  have l: "literal ''users''" by (simp add: literal_def)
  from requests_by_endpoint_like[OF h2 h3 h4, of "''users''"] l
  have "fst (getRequestsByEndpoint \<lparr>dbService = 0\<rparr> ''users'' logged_world) =
     Inr (order_by_desc rq_timestamp (filter (\<lambda>r. sublist ''users'' (rq_endpoint r)) (api_requests (db logged_world))))"
    by auto
  then show ?thesis
    by (simp add: logged_world_def logged_store order_by_desc_def sublist_Cons_right)
qed

end
